theory Spec2Isabelle
  imports Main "HOL-Library.Word" "HOL-Library.Char_ord" "HOL-Library.List_Lexorder"
begin

section \<open>Values exchanged with the platform\<close>

text \<open>
  A \<open>Blob\<close> is a byte sequence with a media type; a \<open>File\<close> is a blob with a name
  (\<open>File extends Blob\<close> in the source). \<open>new File([blob], n, {type: t})\<close> copies the
  bytes of \<open>blob\<close> and takes name and type from its arguments.
\<close>

type_synonym bytes = "8 word list"

record Blob =
  bytes :: bytes
  type :: string

record File =
  name :: string
  body :: Blob

definition new_File :: "Blob \<Rightarrow> string \<Rightarrow> string \<Rightarrow> File" where
  "new_File blob nm ty = \<lparr>name = nm, body = \<lparr>bytes = bytes blob, type = ty\<rparr>\<rparr>"

text \<open>
  The \<open>blob\<close> field of a viewer message is untyped. The handlers only test it for
  truthiness, so besides a \<open>Blob\<close> it may hold any other truthy value the structured
  clone can carry; of those, a byte buffer is the one a writable stream accepts.
\<close>

datatype payload = BlobData Blob | BufferData bytes

fun payload_bytes :: "payload \<Rightarrow> bytes" where
  "payload_bytes (BlobData b) = bytes b"
| "payload_bytes (BufferData bs) = bs"

text \<open>A small document for the examples.\<close>

definition sample_blob :: Blob where
  "sample_blob = \<lparr>bytes = [37, 80, 68, 70], type = ''application/pdf''\<rparr>"

definition png_blob :: Blob where
  "png_blob = \<lparr>bytes = [137, 80, 78, 71], type = ''image/png''\<rparr>"

definition sample_file :: File where
  "sample_file = \<lparr>name = ''contract.pdf'', body = sample_blob\<rparr>"

datatype dom_error = NotFoundError | NoModificationAllowedError | TypeError | SecurityError

section \<open>The origin private file system\<close>

text \<open>
  The directory the wrapper in \<open>lib/storage/file-system\<close> works on. An entry holds bytes
  only: the name and the media type of the \<open>File\<close> that \<open>getFile()\<close> returns come from the
  entry's name (\<open>media_type\<close> is the platform's implementation-defined choice). \<open>locked\<close> are
  the entries another context holds exclusively. Quota failures are not modelled.
\<close>

record opfs =
  has_storage :: bool
  directory_ok :: bool
  entries :: "string \<rightharpoonup> bytes"
  locked :: "string set"
  media_type :: "string \<Rightarrow> string"

record Writable =
  target :: string
  buffer :: bytes
  position :: nat

definition getDirectory :: "opfs \<Rightarrow> dom_error + unit" where
  "getDirectory fs =
     (if \<not> has_storage fs then Inl TypeError
      else if \<not> directory_ok fs then Inl SecurityError
      else Inr ())"

definition valid_name :: "string \<Rightarrow> bool" where
  "valid_name nm \<longleftrightarrow> nm \<noteq> [] \<and> nm \<noteq> ''.'' \<and> nm \<noteq> ''..'' \<and> CHR ''/'' \<notin> set nm"

definition getFileHandle :: "opfs \<Rightarrow> string \<Rightarrow> bool \<Rightarrow> dom_error + opfs" where
  "getFileHandle fs nm create =
     (if \<not> valid_name nm then Inl TypeError
      else case entries fs nm of
        Some _ \<Rightarrow> Inr fs
      | None \<Rightarrow> if create then Inr (fs\<lparr>entries := (entries fs)(nm \<mapsto> [])\<rparr>)
                else Inl NotFoundError)"

text \<open>\<open>createWritable()\<close> with its default options starts from an empty swap buffer.\<close>

definition createWritable :: "opfs \<Rightarrow> string \<Rightarrow> dom_error + Writable" where
  "createWritable fs nm =
     (if nm \<in> locked fs then Inl NoModificationAllowedError
      else case entries fs nm of
        None \<Rightarrow> Inl NotFoundError
      | Some _ \<Rightarrow> Inr \<lparr>target = nm, buffer = [], position = 0\<rparr>)"

definition writable_write :: "Writable \<Rightarrow> payload \<Rightarrow> Writable" where
  "writable_write w chunk =
     (let d = payload_bytes chunk; p = position w; buf = buffer w
      in w\<lparr>buffer := take p buf @ replicate (p - length buf) 0 @ d @ drop (p + length d) buf,
            position := p + length d\<rparr>)"

text \<open>Closing the stream replaces the entry's content by the swap buffer in one step.\<close>

definition writable_close :: "opfs \<Rightarrow> Writable \<Rightarrow> opfs" where
  "writable_close fs w = fs\<lparr>entries := (entries fs)(target w \<mapsto> buffer w)\<rparr>"

definition getFile :: "opfs \<Rightarrow> string \<Rightarrow> dom_error + File" where
  "getFile fs nm =
     (case entries fs nm of
        None \<Rightarrow> Inl NotFoundError
      | Some bs \<Rightarrow> Inr \<lparr>name = nm, body = \<lparr>bytes = bs, type = media_type fs nm\<rparr>\<rparr>)"

definition removeEntry :: "opfs \<Rightarrow> string \<Rightarrow> dom_error + opfs" where
  "removeEntry fs nm =
     (if \<not> valid_name nm then Inl TypeError
      else case entries fs nm of
        None \<Rightarrow> Inl NotFoundError
      | Some _ \<Rightarrow> if nm \<in> locked fs then Inl NoModificationAllowedError
                  else Inr (fs\<lparr>entries := (entries fs)(nm := None)\<rparr>))"

subsection \<open>The wrapper functions\<close>

text \<open>
  Each function returns how its promise settles (\<open>Inl\<close> is a rejection) and, where it
  can change the directory, the directory it leaves behind.
\<close>

definition isOPFSSupported :: "opfs \<Rightarrow> bool" where
  "isOPFSSupported fs =
     (if \<not> has_storage fs then False
      else case getDirectory fs of Inr _ \<Rightarrow> True | Inl _ \<Rightarrow> False)"

definition getRoot :: "opfs \<Rightarrow> dom_error + unit" where
  "getRoot fs = getDirectory fs"

definition saveFileToOPFS :: "opfs \<Rightarrow> string \<Rightarrow> payload \<Rightarrow> (dom_error + unit) \<times> opfs" where
  "saveFileToOPFS fs nm blob =
     (case getRoot fs of
        Inl e \<Rightarrow> (Inl e, fs)
      | Inr _ \<Rightarrow>
          (case getFileHandle fs nm True of
             Inl e \<Rightarrow> (Inl e, fs)
           | Inr fs1 \<Rightarrow>
               (case createWritable fs1 nm of
                  Inl e \<Rightarrow> (Inl e, fs1)
                | Inr writable \<Rightarrow> (Inr (), writable_close fs1 (writable_write writable blob)))))"

definition loadFileFromOPFS :: "opfs \<Rightarrow> string \<Rightarrow> dom_error + File" where
  "loadFileFromOPFS fs nm =
     (case getRoot fs of
        Inl e \<Rightarrow> Inl e
      | Inr _ \<Rightarrow>
          (case getFileHandle fs nm False of
             Inl e \<Rightarrow> Inl e
           | Inr fs1 \<Rightarrow> getFile fs1 nm))"

definition deleteFileFromOPFS :: "opfs \<Rightarrow> string \<Rightarrow> (dom_error + unit) \<times> opfs" where
  "deleteFileFromOPFS fs nm =
     (case getRoot fs of
        Inl e \<Rightarrow> (Inl e, fs)
      | Inr _ \<Rightarrow>
          (case removeEntry fs nm of
             Inl e \<Rightarrow> (Inl e, fs)
           | Inr fs1 \<Rightarrow> (Inr (), fs1)))"

text \<open>An available, empty directory whose files all read back as PDF.\<close>

definition empty_opfs :: opfs where
  "empty_opfs = \<lparr>has_storage = True, directory_ok = True, entries = Map.empty, locked = {},
                  media_type = (\<lambda>_. ''application/pdf'')\<rparr>"

section \<open>The pending-file context\<close>

record PendingFile =
  pfile :: File
  toolSlug :: string
  fileName :: string

text \<open>
  The provider's slot is React state. A callback reads the value of \<open>pendingFile\<close> that
  its render closed over, and \<open>setPendingFileState\<close> only schedules the new value: the
  state changes with the next render. The functions below take the value closed over
  and return, besides the callback's result, the value the state has once the update
  the call schedules (if any) has been rendered.
\<close>

definition setPendingFile :: "File \<Rightarrow> string \<Rightarrow> string \<Rightarrow> PendingFile option" where
  "setPendingFile f slug nm = Some \<lparr>pfile = f, toolSlug = slug, fileName = nm\<rparr>"

definition consumePendingFile ::
    "PendingFile option \<Rightarrow> string \<Rightarrow> File option \<times> PendingFile option" where
  "consumePendingFile pendingFile slug =
     (case pendingFile of
        Some p \<Rightarrow> if toolSlug p = slug then (Some (pfile p), None) else (None, pendingFile)
      | None \<Rightarrow> (None, pendingFile))"

definition clearPendingFile :: "PendingFile option" where
  "clearPendingFile = None"

text \<open>
  The provider between two renders: \<open>rendered\<close> is the value of \<open>pendingFile\<close> that the
  callbacks of the current render closed over, \<open>scheduled\<close> the value of the last
  \<open>setPendingFileState\<close> call made since that render, if there was one. A call made
  through a callback of the current render reads \<open>rendered\<close> and at most schedules an
  update; the next render commits what is scheduled.
\<close>

record Provider =
  rendered :: "PendingFile option"
  scheduled :: "PendingFile option option"

definition initial_provider :: Provider where
  "initial_provider = \<lparr>rendered = None, scheduled = None\<rparr>"

definition provider_setPendingFile :: "File \<Rightarrow> string \<Rightarrow> string \<Rightarrow> Provider \<Rightarrow> Provider" where
  "provider_setPendingFile f slug nm p = p\<lparr>scheduled := Some (setPendingFile f slug nm)\<rparr>"

definition provider_consumePendingFile :: "Provider \<Rightarrow> string \<Rightarrow> File option \<times> Provider" where
  "provider_consumePendingFile p slug =
     (case consumePendingFile (rendered p) slug of
        (Some f, next_state) \<Rightarrow> (Some f, p\<lparr>scheduled := Some next_state\<rparr>)
      | (None, _) \<Rightarrow> (None, p))"

definition provider_clearPendingFile :: "Provider \<Rightarrow> Provider" where
  "provider_clearPendingFile p = p\<lparr>scheduled := Some clearPendingFile\<rparr>"

definition rerender :: "Provider \<Rightarrow> Provider" where
  "rerender p =
     \<lparr>rendered = (case scheduled p of Some v \<Rightarrow> v | None \<Rightarrow> rendered p), scheduled = None\<rparr>"

section \<open>The page around a tool view\<close>

text \<open>
  What the handlers of a tool view read and change outside their own state: the file
  store, the clock, the registry of object URLs, the pending timers, the downloads
  offered through an anchor click, and the pending-file slot.
\<close>

datatype timer_action = RevokeObjectURL nat

record World =
  store :: opfs
  now :: nat
  object_urls :: "nat \<rightharpoonup> Blob"
  next_url :: nat
  timers :: "(nat \<times> timer_action) list"
  downloads :: "(string \<times> Blob option) list"
  pendingFile :: "PendingFile option"

definition createObjectURL_blob :: "World \<Rightarrow> Blob \<Rightarrow> nat \<times> World" where
  "createObjectURL_blob w b =
     (next_url w, w\<lparr>object_urls := (object_urls w)(next_url w \<mapsto> b), next_url := Suc (next_url w)\<rparr>)"

text \<open>\<open>URL.createObjectURL\<close> throws a \<open>TypeError\<close> on anything that is not a blob.\<close>

fun createObjectURL :: "World \<Rightarrow> payload \<Rightarrow> dom_error + nat \<times> World" where
  "createObjectURL w (BlobData b) = Inr (createObjectURL_blob w b)"
| "createObjectURL w (BufferData bs) = Inl TypeError"

definition revokeObjectURL :: "nat \<Rightarrow> World \<Rightarrow> World" where
  "revokeObjectURL url w = w\<lparr>object_urls := (object_urls w)(url := None)\<rparr>"

text \<open>Appending an anchor with \<open>href\<close> and \<open>download\<close> set, clicking and removing it.\<close>

definition anchor_click :: "nat \<Rightarrow> string \<Rightarrow> World \<Rightarrow> World" where
  "anchor_click href download w = w\<lparr>downloads := downloads w @ [(download, object_urls w href)]\<rparr>"

definition setTimeout :: "timer_action \<Rightarrow> nat \<Rightarrow> World \<Rightarrow> World" where
  "setTimeout act delay w = w\<lparr>timers := timers w @ [(delay, act)]\<rparr>"


text \<open>A page just loaded in a fresh profile.\<close>

definition empty_world :: World where
  "empty_world = \<lparr>store = empty_opfs, now = 0, object_urls = Map.empty, next_url = 0,
                   timers = [], downloads = [], pendingFile = None\<rparr>"

text \<open>A page whose file store holds one entry, and one on a platform that reports
  every file as \<open>application/octet-stream\<close>.\<close>

definition session_world :: "string \<Rightarrow> bytes \<Rightarrow> World" where
  "session_world nm bs = empty_world\<lparr>store := empty_opfs\<lparr>entries := [nm \<mapsto> bs]\<rparr>\<rparr>"

definition octet_world :: "string \<Rightarrow> bytes \<Rightarrow> World" where
  "octet_world nm bs = empty_world\<lparr>store := empty_opfs\<lparr>entries := [nm \<mapsto> bs],
      media_type := (\<lambda>_. ''application/octet-stream'')\<rparr>\<rparr>"

text \<open>A message event: its \<open>type\<close>, and for the two kinds handled the fields read.\<close>

datatype message =
    PDF_SESSION_BACKUP "payload option"
  | PDF_SAVE_DATA "payload option" "string option"
  | OtherMessage

text \<open>\<open>filename || d\<close>: a missing or empty file name gives the default.\<close>

fun or_default :: "string option \<Rightarrow> string \<Rightarrow> string" where
  "or_default None d = d"
| "or_default (Some s) d = (if s = [] then d else s)"

text \<open>The decimal digits of a number, as a template literal renders \<open>Date.now()\<close>.\<close>

definition digit_char :: "nat \<Rightarrow> char" where
  "digit_char d = ''0123456789'' ! d"

fun show_nat :: "nat \<Rightarrow> string" where
  "show_nat n = (if n < 10 then [digit_char n] else show_nat (n div 10) @ [digit_char (n mod 10)])"

declare show_nat.simps [simp del]

text \<open>\<open>'Failed to save file: ' + e.message\<close> is kept as the error it was built from.\<close>

datatype ui_error = SaveFailed dom_error | UploadError string

datatype session_phase = AwaitingUpload | Ready

section \<open>The edit tool\<close>

definition EDIT_SESSION_FILE_NAME :: string where
  "EDIT_SESSION_FILE_NAME = ''current_edit_session.pdf''"

record EditState =
  edit_file :: "File option"
  pdfUrl :: "nat option"
  edit_error :: "ui_error option"
  isEditorReady :: bool
  isFullScreen :: bool

definition edit_initial :: EditState where
  "edit_initial = \<lparr>edit_file = None, pdfUrl = None, edit_error = None,
                    isEditorReady = False, isFullScreen = False\<rparr>"

text \<open>The uploader is rendered exactly when there is no file.\<close>

definition edit_phase :: "EditState \<Rightarrow> session_phase" where
  "edit_phase v = (if edit_file v = None then AwaitingUpload else Ready)"

definition edit_savedName :: "World \<Rightarrow> string option \<Rightarrow> string" where
  "edit_savedName w filename = or_default filename (''edited_'' @ show_nat (now w) @ ''.pdf'')"

fun edit_handleMessage :: "message \<Rightarrow> World \<times> EditState \<Rightarrow> World \<times> EditState" where
  "edit_handleMessage (PDF_SESSION_BACKUP blob) (w, v) =
     (case blob of
        None \<Rightarrow> (w, v)
      | Some b \<Rightarrow> (w\<lparr>store := snd (saveFileToOPFS (store w) EDIT_SESSION_FILE_NAME b)\<rparr>, v))"
| "edit_handleMessage (PDF_SAVE_DATA blob filename) (w, v) =
     (case blob of
        None \<Rightarrow> (w, v)
      | Some b \<Rightarrow>
          (let savedName = edit_savedName w filename in
           case saveFileToOPFS (store w) savedName b of
             (Inl e, fs1) \<Rightarrow> (w\<lparr>store := fs1\<rparr>, v\<lparr>edit_error := Some (SaveFailed e)\<rparr>)
           | (Inr _, fs1) \<Rightarrow>
               (case saveFileToOPFS fs1 EDIT_SESSION_FILE_NAME b of
                  (Inl e, fs2) \<Rightarrow> (w\<lparr>store := fs2\<rparr>, v\<lparr>edit_error := Some (SaveFailed e)\<rparr>)
                | (Inr _, fs2) \<Rightarrow>
                    (case createObjectURL (w\<lparr>store := fs2\<rparr>) b of
                       Inl e \<Rightarrow> (w\<lparr>store := fs2\<rparr>, v\<lparr>edit_error := Some (SaveFailed e)\<rparr>)
                     | Inr (url, w1) \<Rightarrow>
                         (setTimeout (RevokeObjectURL url) 1000 (anchor_click url savedName w1),
                          v)))))"
| "edit_handleMessage OtherMessage (w, v) = (w, v)"

text \<open>
  \<open>initializeFile\<close>. The write of the handed-over file is not awaited and its rejection
  only logged. The seeding of the viewer's preferences in \<open>localStorage\<close> on a restore
  sits in a \<open>try\<close> of its own and touches nothing modelled here.
\<close>

definition edit_initializeFile :: "World \<times> EditState \<Rightarrow> World \<times> EditState" where
  "edit_initializeFile wv =
     (let (w, v) = wv in
      if edit_file v \<noteq> None then (w, v)
      else case consumePendingFile (pendingFile w) ''edit-pdf'' of
        (Some pending, slot) \<Rightarrow>
          (let (url, w1) = createObjectURL_blob (w\<lparr>pendingFile := slot\<rparr>) (body pending) in
           (w1\<lparr>store := snd (saveFileToOPFS (store w1) EDIT_SESSION_FILE_NAME
                                 (BlobData (body pending)))\<rparr>,
            v\<lparr>edit_file := Some pending, pdfUrl := Some url\<rparr>))
      | (None, slot) \<Rightarrow>
          (case loadFileFromOPFS (store w) EDIT_SESSION_FILE_NAME of
             Inl e \<Rightarrow> (w\<lparr>pendingFile := slot\<rparr>, v)
           | Inr blob \<Rightarrow>
               (let restoredFile = new_File (body blob) ''restored_document.pdf''
                                     (if type (body blob) = [] then ''application/pdf''
                                      else type (body blob));
                    (url, w1) = createObjectURL_blob (w\<lparr>pendingFile := slot\<rparr>) (body restoredFile)
                in (w1, v\<lparr>edit_file := Some restoredFile, pdfUrl := Some url\<rparr>))))"

text \<open>Mounting the view: fresh component state, then the mount effect.\<close>

definition edit_mount :: "World \<Rightarrow> World \<times> EditState" where
  "edit_mount w = edit_initializeFile (w, edit_initial)"

definition edit_handleClear :: "World \<times> EditState \<Rightarrow> World \<times> EditState" where
  "edit_handleClear wv =
     (let (w, v) = wv;
          w1 = (case pdfUrl v of Some url \<Rightarrow> revokeObjectURL url w | None \<Rightarrow> w);
          w2 = w1\<lparr>store := snd (deleteFileFromOPFS (store w1) EDIT_SESSION_FILE_NAME)\<rparr>
      in (w2, v\<lparr>edit_file := None, pdfUrl := None, edit_error := None, isEditorReady := False\<rparr>))"

section \<open>The sign tool\<close>

definition SIGN_SESSION_FILE_NAME :: string where
  "SIGN_SESSION_FILE_NAME = ''current_sign_session.pdf''"

record SignState =
  sign_file :: "File option"
  blobUrl :: "nat option"
  viewerReady :: bool

record SignView =
  signState :: SignState
  sign_error :: "ui_error option"
  isProcessing :: bool
  flattenSignature :: bool

definition sign_initial :: SignView where
  "sign_initial = \<lparr>signState = \<lparr>sign_file = None, blobUrl = None, viewerReady = False\<rparr>,
                    sign_error = None, isProcessing = False, flattenSignature = True\<rparr>"

definition sign_phase :: "SignView \<Rightarrow> session_phase" where
  "sign_phase v = (if sign_file (signState v) = None then AwaitingUpload else Ready)"

text \<open>\<open>restoreSession\<close>: the sign tool does not use the pending-file context.\<close>

definition sign_restoreSession :: "World \<times> SignView \<Rightarrow> World \<times> SignView" where
  "sign_restoreSession wv =
     (let (w, v) = wv in
      if sign_file (signState v) \<noteq> None then (w, v)
      else case loadFileFromOPFS (store w) SIGN_SESSION_FILE_NAME of
        Inl e \<Rightarrow> (w, v)
      | Inr blob \<Rightarrow>
          (let restoredFile = new_File (body blob) ''restored_document.pdf'' ''application/pdf'';
               (url, w1) = createObjectURL_blob w (body restoredFile)
           in (w1, v\<lparr>signState := \<lparr>sign_file = Some restoredFile, blobUrl = Some url,
                                    viewerReady = False\<rparr>\<rparr>)))"

definition sign_mount :: "World \<Rightarrow> World \<times> SignView" where
  "sign_mount w = sign_restoreSession (w, sign_initial)"

definition sign_savedName :: "World \<Rightarrow> string option \<Rightarrow> string" where
  "sign_savedName w filename = or_default filename (''signed_'' @ show_nat (now w) @ ''.pdf'')"

fun sign_handleMessage :: "message \<Rightarrow> World \<times> SignView \<Rightarrow> World \<times> SignView" where
  "sign_handleMessage (PDF_SESSION_BACKUP blob) (w, v) =
     (case blob of
        None \<Rightarrow> (w, v)
      | Some b \<Rightarrow> (w\<lparr>store := snd (saveFileToOPFS (store w) SIGN_SESSION_FILE_NAME b)\<rparr>, v))"
| "sign_handleMessage (PDF_SAVE_DATA blob filename) (w, v) =
     (case blob of
        None \<Rightarrow> (w, v)
      | Some b \<Rightarrow>
          (let v1 = v\<lparr>isProcessing := True\<rparr>;
               savedName = sign_savedName w filename in
           case saveFileToOPFS (store w) savedName b of
             (Inl e, fs1) \<Rightarrow>
               (w\<lparr>store := fs1\<rparr>, v1\<lparr>sign_error := Some (SaveFailed e), isProcessing := False\<rparr>)
           | (Inr _, fs1) \<Rightarrow>
               (case saveFileToOPFS fs1 SIGN_SESSION_FILE_NAME b of
                  (Inl e, fs2) \<Rightarrow>
                    (w\<lparr>store := fs2\<rparr>,
                     v1\<lparr>sign_error := Some (SaveFailed e), isProcessing := False\<rparr>)
                | (Inr _, fs2) \<Rightarrow>
                    (case createObjectURL (w\<lparr>store := fs2\<rparr>) b of
                       Inl e \<Rightarrow>
                         (w\<lparr>store := fs2\<rparr>,
                          v1\<lparr>sign_error := Some (SaveFailed e), isProcessing := False\<rparr>)
                     | Inr (url, w1) \<Rightarrow>
                         (setTimeout (RevokeObjectURL url) 1000 (anchor_click url savedName w1),
                          v1\<lparr>isProcessing := False\<rparr>)))))"
| "sign_handleMessage OtherMessage (w, v) = (w, v)"

definition sign_handleClear :: "World \<times> SignView \<Rightarrow> World \<times> SignView" where
  "sign_handleClear wv =
     (let (w, v) = wv;
          w1 = (case blobUrl (signState v) of Some url \<Rightarrow> revokeObjectURL url w | None \<Rightarrow> w);
          w2 = w1\<lparr>store := snd (deleteFileFromOPFS (store w1) SIGN_SESSION_FILE_NAME)\<rparr>
      in (w2, v\<lparr>signState := \<lparr>sign_file = None, blobUrl = None, viewerReady = False\<rparr>,
                sign_error := None\<rparr>))"

section \<open>The signature store\<close>

datatype signature_kind = Svg | Image

record SignatureFields =
  kind :: signature_kind
  data :: string
  width :: "nat option"
  height :: "nat option"

record StoredSignature = SignatureFields +
  ident :: string
  createdAt :: nat

datatype store_error = Error string

text \<open>
  The database behind \<open>lib/storage/signature-store\<close>: the records of the object store
  \<open>signatures\<close> in key order (the key path is the id), the number of connections that are
  open, and the condition the backend is in. \<open>RequestsFail\<close> stands for a backend on
  which every request of a transaction fails (a full disk, a broken profile).
\<close>

datatype idb_condition = Unsupported | OpenFails | RequestsFail | Healthy

record idb =
  condition :: idb_condition
  objects :: "StoredSignature list"
  connections :: nat

text \<open>
  A request that succeeds fires \<open>success\<close> at the request and then \<open>complete\<close> at its
  transaction; one that fails fires \<open>error\<close> at the request and, the event not being
  cancelled, \<open>abort\<close> at the transaction.
\<close>

datatype idb_event = RequestSuccess | RequestError | TransactionComplete | TransactionAbort

definition request_events :: "bool \<Rightarrow> idb_event list" where
  "request_events ok =
     (if ok then [RequestSuccess, TransactionComplete] else [RequestError, TransactionAbort])"

text \<open>\<open>add\<close> fails on a key that is present; \<open>delete\<close> of an absent key succeeds.\<close>

definition store_add :: "idb \<Rightarrow> StoredSignature \<Rightarrow> idb_event list \<times> idb" where
  "store_add db entry =
     (if condition db = RequestsFail \<or> ident entry \<in> set (map ident (objects db))
      then (request_events False, db)
      else (request_events True, db\<lparr>objects := insort_key ident entry (objects db)\<rparr>))"

definition store_getAll :: "idb \<Rightarrow> idb_event list \<times> StoredSignature list" where
  "store_getAll db =
     (if condition db = RequestsFail then (request_events False, [])
      else (request_events True, objects db))"

definition store_delete :: "idb \<Rightarrow> string \<Rightarrow> idb_event list \<times> idb" where
  "store_delete db k =
     (if condition db = RequestsFail then (request_events False, db)
      else (request_events True, db\<lparr>objects := filter (\<lambda>s. ident s \<noteq> k) (objects db)\<rparr>))"

definition db_close :: "idb \<Rightarrow> idb" where
  "db_close db = db\<lparr>connections := connections db - 1\<rparr>"

text \<open>A promise is \<open>None\<close> until it settles; settling it again changes nothing.\<close>

type_synonym 'a promise = "(store_error + 'a) option"

definition resolve :: "'a \<Rightarrow> 'a promise \<Rightarrow> 'a promise" where
  "resolve x p = (case p of None \<Rightarrow> Some (Inr x) | Some r \<Rightarrow> Some r)"

definition reject :: "store_error \<Rightarrow> 'a promise \<Rightarrow> 'a promise" where
  "reject e p = (case p of None \<Rightarrow> Some (Inl e) | Some r \<Rightarrow> Some r)"

definition openDB :: "idb \<Rightarrow> store_error + idb" where
  "openDB db =
     (case condition db of
        Unsupported \<Rightarrow> Inl (Error ''IndexedDB not supported'')
      | OpenFails \<Rightarrow> Inl (Error ''Failed to open signature database'')
      | _ \<Rightarrow> Inr (db\<lparr>connections := Suc (connections db)\<rparr>))"

text \<open>
  The handlers each operation installs, as a function of the event. None of the three
  operations installs a handler for the transaction's \<open>abort\<close>.
\<close>

fun saveSignature_on :: "string \<Rightarrow> idb_event \<Rightarrow> string promise \<times> idb \<Rightarrow> string promise \<times> idb" where
  "saveSignature_on sid RequestSuccess (p, db) = (resolve sid p, db)"
| "saveSignature_on sid RequestError (p, db) = (reject (Error ''Failed to save signature'') p, db)"
| "saveSignature_on sid TransactionComplete (p, db) = (p, db_close db)"
| "saveSignature_on sid TransactionAbort (p, db) = (p, db)"

text \<open>
  \<open>saveSignature\<close> reads the clock twice and draws one random suffix
  (\<open>Math.random().toString(36).substr(2, 5)\<close>); the three values are arguments here.
\<close>

definition saveSignature ::
    "idb \<Rightarrow> nat \<Rightarrow> string \<Rightarrow> nat \<Rightarrow> SignatureFields \<Rightarrow> string promise \<times> idb" where
  "saveSignature db0 t rnd t' signature =
     (case openDB db0 of
        Inl e \<Rightarrow> (Some (Inl e), db0)
      | Inr db \<Rightarrow>
          (let sid = ''sig_'' @ show_nat t @ ''_'' @ rnd;
               entry = \<lparr>kind = kind signature, data = data signature, width = width signature,
                        height = height signature, ident = sid, createdAt = t'\<rparr>;
               (events, db1) = store_add db entry
           in fold (saveSignature_on sid) events (None, db1)))"

fun getAllSignatures_on ::
    "StoredSignature list \<Rightarrow> idb_event \<Rightarrow> StoredSignature list promise \<times> idb
      \<Rightarrow> StoredSignature list promise \<times> idb" where
  "getAllSignatures_on result RequestSuccess (p, db) =
     (resolve (sort_key (\<lambda>s. - int (createdAt s)) result) p, db)"
| "getAllSignatures_on result RequestError (p, db) =
     (reject (Error ''Failed to load signatures'') p, db)"
| "getAllSignatures_on result TransactionComplete (p, db) = (p, db_close db)"
| "getAllSignatures_on result TransactionAbort (p, db) = (p, db)"

definition getAllSignatures :: "idb \<Rightarrow> StoredSignature list promise \<times> idb" where
  "getAllSignatures db0 =
     (case openDB db0 of
        Inl e \<Rightarrow> (Some (Inl e), db0)
      | Inr db \<Rightarrow>
          (let (events, result) = store_getAll db
           in fold (getAllSignatures_on result) events (None, db)))"

fun deleteSignature_on :: "idb_event \<Rightarrow> unit promise \<times> idb \<Rightarrow> unit promise \<times> idb" where
  "deleteSignature_on RequestSuccess (p, db) = (resolve () p, db)"
| "deleteSignature_on RequestError (p, db) = (reject (Error ''Failed to delete signature'') p, db)"
| "deleteSignature_on TransactionComplete (p, db) = (p, db_close db)"
| "deleteSignature_on TransactionAbort (p, db) = (p, db)"

definition deleteSignature :: "idb \<Rightarrow> string \<Rightarrow> unit promise \<times> idb" where
  "deleteSignature db0 k =
     (case openDB db0 of
        Inl e \<Rightarrow> (Some (Inl e), db0)
      | Inr db \<Rightarrow>
          (let (events, db1) = store_delete db k
           in fold deleteSignature_on events (None, db1)))"

text \<open>A signature and a healthy, empty database for the examples.\<close>

definition sample_signature :: SignatureFields where
  "sample_signature = \<lparr>kind = Svg, data = ''<svg/>'', width = Some 120, height = Some 40\<rparr>"

definition empty_idb :: idb where
  "empty_idb = \<lparr>condition = Healthy, objects = [], connections = 0\<rparr>"

section \<open>Properties of the file store\<close>

lemma write_fresh:
  "writable_write \<lparr>target = nm, buffer = [], position = 0\<rparr> blob =
     \<lparr>target = nm, buffer = payload_bytes blob, position = length (payload_bytes blob)\<rparr>"
  by (simp add: writable_write_def Let_def)

lemma getRoot_flags:
  "has_storage a = has_storage b \<Longrightarrow> directory_ok a = directory_ok b \<Longrightarrow> getRoot a = getRoot b"
  by (simp add: getRoot_def getDirectory_def)

lemma getRoot_entries [simp]: "getRoot (fs\<lparr>entries := m\<rparr>) = getRoot fs"
  by (simp add: getRoot_def getDirectory_def)

lemma saveFileToOPFS_resolved:
  assumes "saveFileToOPFS fs nm blob = (Inr (), fs')"
  shows "entries fs' = (entries fs)(nm \<mapsto> payload_bytes blob)"
    and "has_storage fs' = has_storage fs" and "directory_ok fs' = directory_ok fs"
    and "locked fs' = locked fs" and "media_type fs' = media_type fs"
    and "getRoot fs = Inr ()" and "valid_name nm" and "nm \<notin> locked fs"
  using assms
  by (auto simp: saveFileToOPFS_def getFileHandle_def createWritable_def writable_close_def write_fresh
      split: sum.splits if_splits option.splits)

lemma saveFileToOPFS_resolves:
  assumes "getRoot fs = Inr ()" and "valid_name nm" and "nm \<notin> locked fs"
  shows "saveFileToOPFS fs nm b =
           (Inr (), fs\<lparr>entries := (entries fs)(nm \<mapsto> payload_bytes b)\<rparr>)"
  using assms
  by (simp add: saveFileToOPFS_def getFileHandle_def createWritable_def writable_close_def
      write_fresh split: option.splits)

lemma loadFileFromOPFS_present:
  assumes "getRoot fs = Inr ()" and "valid_name nm" and "entries fs nm = Some bs"
  shows "loadFileFromOPFS fs nm = Inr \<lparr>name = nm, body = \<lparr>bytes = bs, type = media_type fs nm\<rparr>\<rparr>"
  using assms by (simp add: loadFileFromOPFS_def getFileHandle_def getFile_def)

lemma loadFileFromOPFS_absent:
  assumes "entries fs nm = None"
  shows "\<exists>e. loadFileFromOPFS fs nm = Inl e"
  using assms
  by (simp add: loadFileFromOPFS_def getFileHandle_def split: sum.splits)

lemma deleteFileFromOPFS_absent:
  assumes "getRoot fs = Inr ()" and "valid_name nm" and "entries fs nm = None"
  shows "deleteFileFromOPFS fs nm = (Inl NotFoundError, fs)"
  using assms by (simp add: deleteFileFromOPFS_def removeEntry_def)

lemma deleteFileFromOPFS_resolved:
  assumes "deleteFileFromOPFS fs nm = (Inr (), fs')"
  shows "entries fs' = (entries fs)(nm := None)" and "getRoot fs' = getRoot fs"
    and "locked fs' = locked fs" and "media_type fs' = media_type fs"
  using assms
  by (auto simp: deleteFileFromOPFS_def removeEntry_def getRoot_def getDirectory_def
      split: sum.splits if_splits option.splits)

lemma valid_EDIT_SESSION_FILE_NAME: "valid_name EDIT_SESSION_FILE_NAME"
  by (simp add: valid_name_def EDIT_SESSION_FILE_NAME_def)

lemma valid_SIGN_SESSION_FILE_NAME: "valid_name SIGN_SESSION_FILE_NAME"
  by (simp add: valid_name_def SIGN_SESSION_FILE_NAME_def)

lemmas opfs_defs = saveFileToOPFS_def loadFileFromOPFS_def deleteFileFromOPFS_def getRoot_def
  getDirectory_def getFileHandle_def createWritable_def writable_close_def write_fresh
  getFile_def removeEntry_def

text \<open>
  C6, as the code has it. In an available directory, for a valid name that is not
  locked and any two payloads \<open>b1\<close> and \<open>b2\<close>: both saves resolve, and loading the name
  then yields a file that holds exactly the bytes of \<open>b2\<close>, under the entry's name and
  the media type the platform reports for it. The second save replaces the entry and
  touches no other; the only step of it that precedes the closing of the stream and
  acts on the directory, opening the handle, leaves the directory as it was, so that a
  read between the two still yields the bytes of \<open>b1\<close>, never a mixture.
\<close>

theorem save_save_load:
  assumes "getRoot fs = Inr ()" and "valid_name nm" and "nm \<notin> locked fs"
  shows "saveFileToOPFS fs nm b1 = (Inr (), fs\<lparr>entries := (entries fs)(nm \<mapsto> payload_bytes b1)\<rparr>)
       \<and> saveFileToOPFS (fs\<lparr>entries := (entries fs)(nm \<mapsto> payload_bytes b1)\<rparr>) nm b2
           = (Inr (), fs\<lparr>entries := (entries fs)(nm \<mapsto> payload_bytes b2)\<rparr>)
       \<and> loadFileFromOPFS (fs\<lparr>entries := (entries fs)(nm \<mapsto> payload_bytes b2)\<rparr>) nm
           = Inr \<lparr>name = nm, body = \<lparr>bytes = payload_bytes b2, type = media_type fs nm\<rparr>\<rparr>
       \<and> getFileHandle (fs\<lparr>entries := (entries fs)(nm \<mapsto> payload_bytes b1)\<rparr>) nm True
           = Inr (fs\<lparr>entries := (entries fs)(nm \<mapsto> payload_bytes b1)\<rparr>)
       \<and> loadFileFromOPFS (fs\<lparr>entries := (entries fs)(nm \<mapsto> payload_bytes b1)\<rparr>) nm
           = Inr \<lparr>name = nm, body = \<lparr>bytes = payload_bytes b1, type = media_type fs nm\<rparr>\<rparr>"
proof -
  let ?fs1 = "fs\<lparr>entries := (entries fs)(nm \<mapsto> payload_bytes b1)\<rparr>"
  let ?fs2 = "fs\<lparr>entries := (entries fs)(nm \<mapsto> payload_bytes b2)\<rparr>"
  have s1: "saveFileToOPFS fs nm b1 = (Inr (), ?fs1)"
    by (rule saveFileToOPFS_resolves [OF assms])
  have root1: "getRoot ?fs1 = Inr ()" and unlocked1: "nm \<notin> locked ?fs1"
    using assms by simp_all
  have s2: "saveFileToOPFS ?fs1 nm b2 = (Inr (), ?fs2)"
    using saveFileToOPFS_resolves [OF root1 assms(2) unlocked1, of b2] by simp
  have root2: "getRoot ?fs2 = Inr ()"
    using assms(1) by simp
  have l2: "loadFileFromOPFS ?fs2 nm
      = Inr \<lparr>name = nm, body = \<lparr>bytes = payload_bytes b2, type = media_type fs nm\<rparr>\<rparr>"
    using loadFileFromOPFS_present [OF root2 assms(2), of "payload_bytes b2"] by simp
  have l1: "loadFileFromOPFS ?fs1 nm
      = Inr \<lparr>name = nm, body = \<lparr>bytes = payload_bytes b1, type = media_type fs nm\<rparr>\<rparr>"
    using loadFileFromOPFS_present [OF root1 assms(2), of "payload_bytes b1"] by simp
  have h: "getFileHandle ?fs1 nm True = Inr ?fs1"
    using assms(2) by (simp add: getFileHandle_def)
  from s1 s2 l2 h l1 show ?thesis
    by blast
qed

theorem save_save_load_witness:
  "getRoot empty_opfs = Inr () \<and> valid_name ''a.pdf'' \<and> ''a.pdf'' \<notin> locked empty_opfs
   \<and> saveFileToOPFS empty_opfs ''a.pdf'' (BlobData sample_blob)
       = (Inr (), empty_opfs\<lparr>entries := [''a.pdf'' \<mapsto> [37, 80, 68, 70]]\<rparr>)
   \<and> saveFileToOPFS (empty_opfs\<lparr>entries := [''a.pdf'' \<mapsto> [37, 80, 68, 70]]\<rparr>) ''a.pdf''
         (BlobData png_blob)
       = (Inr (), empty_opfs\<lparr>entries := [''a.pdf'' \<mapsto> [137, 80, 78, 71]]\<rparr>)
   \<and> loadFileFromOPFS (empty_opfs\<lparr>entries := [''a.pdf'' \<mapsto> [137, 80, 78, 71]]\<rparr>) ''a.pdf''
       = Inr \<lparr>name = ''a.pdf'', body = \<lparr>bytes = [137, 80, 78, 71], type = ''application/pdf''\<rparr>\<rparr>"
proof -
  have h1: "getRoot empty_opfs = Inr ()"
    by (simp add: getRoot_def getDirectory_def empty_opfs_def)
  have h2: "valid_name ''a.pdf''"
    by (simp add: valid_name_def)
  have h3: "''a.pdf'' \<notin> locked empty_opfs"
    by (simp add: empty_opfs_def)
  from save_save_load [OF h1 h2 h3, of "BlobData sample_blob" "BlobData png_blob"] h1 h2 h3
  show ?thesis
    by (simp add: empty_opfs_def sample_blob_def png_blob_def)
qed

text \<open>
  The claim as stated fails: the blob's own media type is not stored. A PNG-typed blob
  saved under \<open>a.pdf\<close> is read back with the type of the entry, so what is loaded is
  not the blob that was saved.
\<close>

theorem load_type_counterexample:
  "loadFileFromOPFS
     (snd (saveFileToOPFS (snd (saveFileToOPFS empty_opfs ''a.pdf'' (BlobData sample_blob)))
             ''a.pdf'' (BlobData png_blob))) ''a.pdf''
     = Inr \<lparr>name = ''a.pdf'', body = \<lparr>bytes = bytes png_blob, type = ''application/pdf''\<rparr>\<rparr>
   \<and> \<lparr>bytes = bytes png_blob, type = ''application/pdf''\<rparr> \<noteq> png_blob"
  by (simp add: opfs_defs valid_name_def empty_opfs_def png_blob_def sample_blob_def)

section \<open>Clearing a session\<close>

lemma edit_handleClear_view:
  "snd (edit_handleClear (w, v)) =
     v\<lparr>edit_file := None, pdfUrl := None, edit_error := None, isEditorReady := False\<rparr>"
  by (simp add: edit_handleClear_def Let_def)

lemma sign_handleClear_view:
  "snd (sign_handleClear (w, v)) =
     v\<lparr>signState := \<lparr>sign_file = None, blobUrl = None, viewerReady = False\<rparr>, sign_error := None\<rparr>"
  by (simp add: sign_handleClear_def Let_def)

lemma edit_handleClear_store:
  assumes "getRoot (store w) = Inr ()" and "EDIT_SESSION_FILE_NAME \<notin> locked (store w)"
  shows "entries (store (fst (edit_handleClear (w, v)))) EDIT_SESSION_FILE_NAME = None"
    and "getRoot (store (fst (edit_handleClear (w, v)))) = getRoot (store w)"
    and "locked (store (fst (edit_handleClear (w, v)))) = locked (store w)"
    and "pendingFile (fst (edit_handleClear (w, v))) = pendingFile w"
  using assms
  by (auto simp: edit_handleClear_def Let_def revokeObjectURL_def deleteFileFromOPFS_def
      removeEntry_def valid_EDIT_SESSION_FILE_NAME
      split: option.splits sum.splits)

text \<open>
  C4, as the code has it. \<open>deleteFileFromOPFS\<close> on a valid name that is absent from an
  available directory (never written, or deleted before) is rejected with
  \<open>NotFoundError\<close> and leaves the directory as it was. The tolerance is the callers':
  the clear handlers of both tools ignore the outcome of the delete and always end with
  no file, no error and the uploader showing.
\<close>

theorem delete_absent_rejects:
  assumes "getRoot fs = Inr ()" and "valid_name nm" and "entries fs nm = None"
  shows "deleteFileFromOPFS fs nm = (Inl NotFoundError, fs)
       \<and> edit_phase (snd (edit_handleClear (w, v))) = AwaitingUpload
       \<and> edit_error (snd (edit_handleClear (w, v))) = None
       \<and> sign_phase (snd (sign_handleClear (w, sv))) = AwaitingUpload
       \<and> sign_error (snd (sign_handleClear (w, sv))) = None"
  using deleteFileFromOPFS_absent [OF assms]
  by (simp add: edit_handleClear_view sign_handleClear_view edit_phase_def sign_phase_def)

theorem delete_absent_rejects_witness:
  "getRoot empty_opfs = Inr () \<and> valid_name ''never_written.pdf''
   \<and> entries empty_opfs ''never_written.pdf'' = None
   \<and> deleteFileFromOPFS empty_opfs ''never_written.pdf'' = (Inl NotFoundError, empty_opfs)
   \<and> edit_phase (snd (edit_handleClear (empty_world, edit_initial))) = AwaitingUpload
   \<and> sign_phase (snd (sign_handleClear (empty_world, sign_initial))) = AwaitingUpload"
proof -
  have h1: "getRoot empty_opfs = Inr ()"
    by (simp add: getRoot_def getDirectory_def empty_opfs_def)
  have h2: "valid_name ''never_written.pdf''"
    by (simp add: valid_name_def)
  have h3: "entries empty_opfs ''never_written.pdf'' = None"
    by (simp add: empty_opfs_def)
  from delete_absent_rejects [OF h1 h2 h3, of empty_world edit_initial sign_initial] h1 h2 h3
  show ?thesis by simp
qed

text \<open>
  The claim as stated fails: deleting a name that was never written, and deleting a
  name a second time, are both rejected.
\<close>

theorem delete_absent_counterexample:
  "fst (deleteFileFromOPFS empty_opfs ''never_written.pdf'') = Inl NotFoundError
   \<and> fst (deleteFileFromOPFS
          (snd (deleteFileFromOPFS
             (snd (saveFileToOPFS empty_opfs ''a.pdf'' (BlobData sample_blob))) ''a.pdf''))
          ''a.pdf'') = Inl NotFoundError"
  by (simp add: opfs_defs valid_name_def empty_opfs_def)

section \<open>Properties of the pending-file context\<close>

lemmas provider_defs = provider_consumePendingFile_def provider_setPendingFile_def rerender_def
  consumePendingFile_def setPendingFile_def initial_provider_def

text \<open>
  C3, as the code has it. With no handoff set, \<open>consumePendingFile\<close> returns nothing and
  schedules nothing. After \<open>setPendingFile f t\<close> has been rendered, consuming for another
  tool \<open>t'\<close> returns nothing and leaves the provider as it is; consuming for \<open>t\<close> returns
  \<open>f\<close> and schedules the clearing of the slot. Once that update has been rendered the
  slot is empty and a further consume for \<open>t\<close> returns nothing; a further consume for \<open>t\<close>
  through the callback of the same render, before the update is rendered, returns \<open>f\<close>
  again.
\<close>

theorem consume_pending_file:
  assumes "t' \<noteq> t"
  shows "provider_consumePendingFile initial_provider t0 = (None, initial_provider)
       \<and> provider_consumePendingFile (rerender (provider_setPendingFile f t nm p)) t'
           = (None, rerender (provider_setPendingFile f t nm p))
       \<and> provider_consumePendingFile (rerender (provider_setPendingFile f t nm p)) t
           = (Some f, (rerender (provider_setPendingFile f t nm p))\<lparr>scheduled := Some None\<rparr>)
       \<and> rerender (snd (provider_consumePendingFile
                           (rerender (provider_setPendingFile f t nm p)) t))
           = initial_provider
       \<and> fst (provider_consumePendingFile
                (rerender (snd (provider_consumePendingFile
                                  (rerender (provider_setPendingFile f t nm p)) t))) t)
           = None
       \<and> fst (provider_consumePendingFile
                (snd (provider_consumePendingFile
                        (rerender (provider_setPendingFile f t nm p)) t)) t)
           = Some f"
  using assms by (simp add: provider_defs)

theorem consume_pending_file_witness:
  "''edit'' \<noteq> ''sign''
   \<and> provider_consumePendingFile
        (rerender (provider_setPendingFile sample_file ''sign'' ''contract.pdf'' initial_provider))
        ''edit''
       = (None, rerender (provider_setPendingFile sample_file ''sign'' ''contract.pdf'' initial_provider))
   \<and> provider_consumePendingFile
        (rerender (provider_setPendingFile sample_file ''sign'' ''contract.pdf'' initial_provider))
        ''sign''
       = (Some sample_file,
          (rerender (provider_setPendingFile sample_file ''sign'' ''contract.pdf'' initial_provider))
            \<lparr>scheduled := Some None\<rparr>)
   \<and> fst (provider_consumePendingFile
          (rerender (snd (provider_consumePendingFile
            (rerender (provider_setPendingFile sample_file ''sign'' ''contract.pdf'' initial_provider))
            ''sign''))) ''sign'')
       = None"
proof -
  have h: "''edit'' \<noteq> ''sign''" by simp
  from consume_pending_file [OF h, of "''sign''" sample_file "''contract.pdf''" initial_provider] h
  show ?thesis by blast
qed

text \<open>
  The claim as stated fails: the read and the clear are not one step. Two calls through
  the callback of one render both return the file.
\<close>

theorem consume_twice_counterexample:
  "fst (provider_consumePendingFile
          (rerender (provider_setPendingFile sample_file ''sign'' ''contract.pdf'' initial_provider))
          ''sign'') = Some sample_file
   \<and> fst (provider_consumePendingFile
          (snd (provider_consumePendingFile
            (rerender (provider_setPendingFile sample_file ''sign'' ''contract.pdf'' initial_provider))
            ''sign'')) ''sign'') = Some sample_file"
  by (simp add: provider_defs)

lemma consumePendingFile_none:
  "fst (consumePendingFile p slug) = None \<Longrightarrow> consumePendingFile p slug = (None, p)"
  by (auto simp: consumePendingFile_def split: option.splits if_splits)

section \<open>Mounting a tool view\<close>

lemma edit_mount_restore:
  assumes "fst (consumePendingFile (pendingFile w) ''edit-pdf'') = None"
    and "loadFileFromOPFS (store w) EDIT_SESSION_FILE_NAME = Inr blob"
  shows "edit_mount w =
     (w\<lparr>object_urls := (object_urls w)(next_url w \<mapsto>
            \<lparr>bytes = bytes (body blob),
             type = (if type (body blob) = [] then ''application/pdf'' else type (body blob))\<rparr>),
         next_url := Suc (next_url w)\<rparr>,
      edit_initial\<lparr>edit_file := Some \<lparr>name = ''restored_document.pdf'', body =
            \<lparr>bytes = bytes (body blob),
             type = (if type (body blob) = [] then ''application/pdf'' else type (body blob))\<rparr>\<rparr>,
          pdfUrl := Some (next_url w)\<rparr>)"
  using consumePendingFile_none [OF assms(1)] assms(2)
  by (simp add: edit_mount_def edit_initializeFile_def edit_initial_def new_File_def
      createObjectURL_blob_def Let_def)

lemma edit_mount_nothing:
  assumes "fst (consumePendingFile (pendingFile w) ''edit-pdf'') = None"
    and "loadFileFromOPFS (store w) EDIT_SESSION_FILE_NAME = Inl e"
  shows "edit_mount w = (w, edit_initial)"
  using consumePendingFile_none [OF assms(1)] assms(2)
  by (simp add: edit_mount_def edit_initializeFile_def edit_initial_def)

lemma edit_mount_handoff:
  assumes "pendingFile w = Some p" and "toolSlug p = ''edit-pdf''"
  shows "edit_mount w =
     (w\<lparr>pendingFile := None,
         object_urls := (object_urls w)(next_url w \<mapsto> body (pfile p)),
         next_url := Suc (next_url w),
         store := snd (saveFileToOPFS (store w) EDIT_SESSION_FILE_NAME (BlobData (body (pfile p))))\<rparr>,
      edit_initial\<lparr>edit_file := Some (pfile p), pdfUrl := Some (next_url w)\<rparr>)"
  using assms
  by (simp add: edit_mount_def edit_initializeFile_def edit_initial_def consumePendingFile_def
      createObjectURL_blob_def Let_def)

lemma edit_mount_handoff_ready:
  assumes "pendingFile w = Some p" and "toolSlug p = ''edit-pdf''"
  shows "edit_file (snd (edit_mount w)) = Some (pfile p)"
    and "edit_phase (snd (edit_mount w)) = Ready"
    and "pendingFile (fst (edit_mount w)) = None"
    and "store (fst (edit_mount w)) =
           snd (saveFileToOPFS (store w) EDIT_SESSION_FILE_NAME (BlobData (body (pfile p))))"
    and "consumePendingFile (pendingFile (fst (edit_mount w))) ''edit-pdf'' = (None, None)"
  by (simp_all add: edit_mount_handoff [OF assms] edit_phase_def consumePendingFile_def)

lemma sign_mount_restore:
  assumes "loadFileFromOPFS (store w) SIGN_SESSION_FILE_NAME = Inr blob"
  shows "sign_mount w =
     (w\<lparr>object_urls := (object_urls w)(next_url w \<mapsto>
            \<lparr>bytes = bytes (body blob), type = ''application/pdf''\<rparr>),
         next_url := Suc (next_url w)\<rparr>,
      sign_initial\<lparr>signState := \<lparr>sign_file = Some \<lparr>name = ''restored_document.pdf'', body =
            \<lparr>bytes = bytes (body blob), type = ''application/pdf''\<rparr>\<rparr>,
          blobUrl = Some (next_url w), viewerReady = False\<rparr>\<rparr>)"
  using assms
  by (simp add: sign_mount_def sign_restoreSession_def sign_initial_def new_File_def
      createObjectURL_blob_def Let_def)

lemma sign_mount_nothing:
  assumes "loadFileFromOPFS (store w) SIGN_SESSION_FILE_NAME = Inl e"
  shows "sign_mount w = (w, sign_initial)"
  using assms by (simp add: sign_mount_def sign_restoreSession_def sign_initial_def)

lemma sign_mount_pendingFile: "pendingFile (fst (sign_mount w)) = pendingFile w"
  by (cases "loadFileFromOPFS (store w) SIGN_SESSION_FILE_NAME")
     (simp_all add: sign_mount_nothing sign_mount_restore)

text \<open>
  C10, as the code has it. A restore on mount names the working document
  \<open>restored_document.pdf\<close> in both tools, whatever the document was called before (the
  file store keeps no display name). The sign tool gives it the type
  \<open>application/pdf\<close>. The edit tool gives it the type the file store reports for the
  snapshot and falls back to \<open>application/pdf\<close> only when that type is empty.
\<close>

theorem restored_document_name:
  assumes "fst (consumePendingFile (pendingFile w) ''edit-pdf'') = None"
    and "loadFileFromOPFS (store w) EDIT_SESSION_FILE_NAME = Inr blob"
    and "loadFileFromOPFS (store w') SIGN_SESSION_FILE_NAME = Inr blob'"
  shows "edit_file (snd (edit_mount w)) =
           Some \<lparr>name = ''restored_document.pdf'', body =
             \<lparr>bytes = bytes (body blob),
              type = (if type (body blob) = [] then ''application/pdf'' else type (body blob))\<rparr>\<rparr>
       \<and> sign_file (signState (snd (sign_mount w'))) =
           Some \<lparr>name = ''restored_document.pdf'', body =
             \<lparr>bytes = bytes (body blob'), type = ''application/pdf''\<rparr>\<rparr>"
  by (simp add: edit_mount_restore [OF assms(1) assms(2)] sign_mount_restore [OF assms(3)])

theorem restored_document_name_witness:
  "edit_file (snd (edit_mount (session_world EDIT_SESSION_FILE_NAME [37, 80, 68, 70]))) =
     Some \<lparr>name = ''restored_document.pdf'',
           body = \<lparr>bytes = [37, 80, 68, 70], type = ''application/pdf''\<rparr>\<rparr>
   \<and> sign_file (signState (snd (sign_mount (session_world SIGN_SESSION_FILE_NAME [37, 80])))) =
     Some \<lparr>name = ''restored_document.pdf'',
           body = \<lparr>bytes = [37, 80], type = ''application/pdf''\<rparr>\<rparr>"
proof -
  have h1: "fst (consumePendingFile
      (pendingFile (session_world EDIT_SESSION_FILE_NAME [37, 80, 68, 70])) ''edit-pdf'') = None"
    by (simp add: session_world_def empty_world_def consumePendingFile_def)
  have h2: "loadFileFromOPFS (store (session_world EDIT_SESSION_FILE_NAME [37, 80, 68, 70]))
      EDIT_SESSION_FILE_NAME
      = Inr \<lparr>name = EDIT_SESSION_FILE_NAME,
             body = \<lparr>bytes = [37, 80, 68, 70], type = ''application/pdf''\<rparr>\<rparr>"
    by (simp add: session_world_def empty_world_def empty_opfs_def opfs_defs
        valid_EDIT_SESSION_FILE_NAME)
  have h3: "loadFileFromOPFS (store (session_world SIGN_SESSION_FILE_NAME [37, 80]))
      SIGN_SESSION_FILE_NAME
      = Inr \<lparr>name = SIGN_SESSION_FILE_NAME,
             body = \<lparr>bytes = [37, 80], type = ''application/pdf''\<rparr>\<rparr>"
    by (simp add: session_world_def empty_world_def empty_opfs_def opfs_defs
        valid_SIGN_SESSION_FILE_NAME)
  from restored_document_name [OF h1 h2 h3] show ?thesis
    by simp
qed

text \<open>
  The claim as stated fails in the edit tool: where the platform reports the snapshot
  as \<open>application/octet-stream\<close>, that is the type of the restored document.
\<close>

theorem restored_document_type_counterexample:
  "edit_file (snd (edit_mount (octet_world EDIT_SESSION_FILE_NAME [37, 80, 68, 70]))) =
     Some \<lparr>name = ''restored_document.pdf'',
           body = \<lparr>bytes = [37, 80, 68, 70], type = ''application/octet-stream''\<rparr>\<rparr>"
  by (simp add: edit_mount_def edit_initializeFile_def edit_initial_def consumePendingFile_def
      octet_world_def empty_world_def empty_opfs_def opfs_defs valid_EDIT_SESSION_FILE_NAME
      new_File_def createObjectURL_blob_def Let_def)

text \<open>
  C2 at the input where the code departs from it. A handoff for the sign tool is
  pending and the file store is empty: the sign tool's mount leaves the handoff in
  the slot and the page as it was, and shows the uploader, although consuming the
  slot for that tool would have returned the file.
\<close>

theorem sign_mount_leaves_handoff:
  "sign_mount (empty_world\<lparr>pendingFile := setPendingFile sample_file ''sign-pdf'' ''contract.pdf''\<rparr>)
     = (empty_world\<lparr>pendingFile := setPendingFile sample_file ''sign-pdf'' ''contract.pdf''\<rparr>,
        sign_initial)
   \<and> sign_phase sign_initial = AwaitingUpload
   \<and> fst (consumePendingFile (setPendingFile sample_file ''sign-pdf'' ''contract.pdf'') ''sign-pdf'')
       = Some sample_file"
  by (simp add: sign_mount_def sign_restoreSession_def sign_initial_def sign_phase_def
      empty_world_def empty_opfs_def opfs_defs valid_SIGN_SESSION_FILE_NAME
      consumePendingFile_def setPendingFile_def)

section \<open>A backup that arrives after a clear\<close>

text \<open>
  C1, as the code has it. The file store is available, the snapshot is not locked and
  no handoff for the edit tool is pending. A mount right after a clear shows the
  uploader. A \<open>PDF_SESSION_BACKUP\<close> message handled after the clear is written to the
  snapshot name like any other, the handler not looking at the state of the view: the
  snapshot then holds the bytes of the message, and the next mount restores them and
  is ready.
\<close>

theorem backup_after_clear:
  assumes "getRoot (store w) = Inr ()"
    and "EDIT_SESSION_FILE_NAME \<notin> locked (store w)"
    and "fst (consumePendingFile (pendingFile w) ''edit-pdf'') = None"
  shows "edit_phase (snd (edit_mount (fst (edit_handleClear (w, v))))) = AwaitingUpload
       \<and> entries (store (fst (edit_handleMessage (PDF_SESSION_BACKUP (Some b))
                                (edit_handleClear (w, v))))) EDIT_SESSION_FILE_NAME
           = Some (payload_bytes b)
       \<and> edit_phase (snd (edit_mount (fst (edit_handleMessage (PDF_SESSION_BACKUP (Some b))
                                (edit_handleClear (w, v)))))) = Ready
       \<and> map_option (\<lambda>f. bytes (body f))
           (edit_file (snd (edit_mount (fst (edit_handleMessage (PDF_SESSION_BACKUP (Some b))
                                (edit_handleClear (w, v)))))))
           = Some (payload_bytes b)"
proof -
  obtain w1 v1 where c: "edit_handleClear (w, v) = (w1, v1)"
    by (cases "edit_handleClear (w, v)")
  note cl = edit_handleClear_store [OF assms(1) assms(2), of v, unfolded c fst_conv]
  have root1: "getRoot (store w1) = Inr ()"
    using cl(2) assms(1) by simp
  have pend1: "fst (consumePendingFile (pendingFile w1) ''edit-pdf'') = None"
    using cl(4) assms(3) by simp
  obtain e where "loadFileFromOPFS (store w1) EDIT_SESSION_FILE_NAME = Inl e"
    using loadFileFromOPFS_absent [OF cl(1)] by blast
  then have first: "edit_phase (snd (edit_mount w1)) = AwaitingUpload"
    by (simp add: edit_mount_nothing [OF pend1] edit_phase_def edit_initial_def)
  have unlocked1: "EDIT_SESSION_FILE_NAME \<notin> locked (store w1)"
    using cl(3) assms(2) by simp
  define w2 where "w2 = fst (edit_handleMessage (PDF_SESSION_BACKUP (Some b)) (w1, v1))"
  have w2: "w2 = w1\<lparr>store := (store w1)\<lparr>entries :=
               (entries (store w1))(EDIT_SESSION_FILE_NAME \<mapsto> payload_bytes b)\<rparr>\<rparr>"
    by (simp add: w2_def
        saveFileToOPFS_resolves [OF root1 valid_EDIT_SESSION_FILE_NAME unlocked1])
  have entry2: "entries (store w2) EDIT_SESSION_FILE_NAME = Some (payload_bytes b)"
    by (simp add: w2)
  have root2: "getRoot (store w2) = Inr ()"
    using root1 by (simp add: w2)
  have pend2: "fst (consumePendingFile (pendingFile w2) ''edit-pdf'') = None"
    using pend1 by (simp add: w2)
  note load2 = loadFileFromOPFS_present [OF root2 valid_EDIT_SESSION_FILE_NAME entry2]
  note m2 = edit_mount_restore [OF pend2 load2]
  have "edit_phase (snd (edit_mount w2)) = Ready"
    and "map_option (\<lambda>f. bytes (body f)) (edit_file (snd (edit_mount w2))) = Some (payload_bytes b)"
    by (simp_all add: m2 edit_phase_def)
  with first entry2 show ?thesis
    by (simp add: c w2_def)
qed

theorem backup_after_clear_witness:
  "edit_phase (snd (edit_mount (fst (edit_handleClear
       (session_world EDIT_SESSION_FILE_NAME [1, 2], edit_initial\<lparr>edit_file := Some sample_file\<rparr>)))))
     = AwaitingUpload
   \<and> edit_phase (snd (edit_mount (fst
       (edit_handleMessage (PDF_SESSION_BACKUP (Some (BlobData sample_blob)))
         (edit_handleClear
           (session_world EDIT_SESSION_FILE_NAME [1, 2],
            edit_initial\<lparr>edit_file := Some sample_file\<rparr>))))))
     = Ready"
proof -
  have h1: "getRoot (store (session_world EDIT_SESSION_FILE_NAME [1, 2])) = Inr ()"
    by (simp add: session_world_def empty_world_def empty_opfs_def getRoot_def getDirectory_def)
  have h2: "EDIT_SESSION_FILE_NAME \<notin> locked (store (session_world EDIT_SESSION_FILE_NAME [1, 2]))"
    by (simp add: session_world_def empty_world_def empty_opfs_def)
  have h3: "fst (consumePendingFile (pendingFile (session_world EDIT_SESSION_FILE_NAME [1, 2]))
      ''edit-pdf'') = None"
    by (simp add: session_world_def empty_world_def consumePendingFile_def)
  from backup_after_clear [OF h1 h2 h3, of "edit_initial\<lparr>edit_file := Some sample_file\<rparr>"
      "BlobData sample_blob"]
  show ?thesis by simp
qed

text \<open>
  The claim as stated fails: a backup that is handled after the clear leaves the
  snapshot name populated, and the next mount is ready with it.
\<close>

theorem backup_after_clear_counterexample:
  "edit_phase (snd (edit_mount (fst (edit_handleMessage (PDF_SESSION_BACKUP (Some (BlobData sample_blob)))
       (edit_handleClear (empty_world, edit_initial\<lparr>edit_file := Some sample_file\<rparr>)))))) = Ready
   \<and> entries (store (fst (edit_handleMessage (PDF_SESSION_BACKUP (Some (BlobData sample_blob)))
       (edit_handleClear (empty_world, edit_initial\<lparr>edit_file := Some sample_file\<rparr>)))))
       EDIT_SESSION_FILE_NAME = Some (bytes sample_blob)"
  by (simp add: edit_mount_def edit_initializeFile_def edit_initial_def edit_handleClear_def
      edit_phase_def consumePendingFile_def empty_world_def empty_opfs_def opfs_defs
      valid_EDIT_SESSION_FILE_NAME new_File_def createObjectURL_blob_def Let_def)

text \<open>The sign tool's handlers behave alike.\<close>

lemma sign_backup_after_clear_example:
  "sign_phase (snd (sign_mount (fst (sign_handleClear
       (session_world SIGN_SESSION_FILE_NAME [1, 2], sign_initial))))) = AwaitingUpload"
  "sign_phase (snd (sign_mount (fst
       (sign_handleMessage (PDF_SESSION_BACKUP (Some (BlobData sample_blob)))
         (sign_handleClear (session_world SIGN_SESSION_FILE_NAME [1, 2], sign_initial))))))
     = Ready"
  by (simp_all add: sign_mount_def sign_restoreSession_def sign_initial_def sign_handleClear_def
      sign_phase_def session_world_def empty_world_def empty_opfs_def opfs_defs
      valid_SIGN_SESSION_FILE_NAME new_File_def createObjectURL_blob_def Let_def)

section \<open>Handling a save message\<close>





text \<open>
  Two failures, evaluated: with no storage the first save is rejected, and a payload
  that is a buffer is saved twice and then refused by \<open>URL.createObjectURL\<close>. Either
  way one error is shown, nothing is downloaded and the view keeps its file.
\<close>

lemma save_data_rejected_example:
  "edit_handleMessage (PDF_SAVE_DATA (Some (BlobData sample_blob)) (Some ''out.pdf''))
     (empty_world\<lparr>store := empty_opfs\<lparr>has_storage := False\<rparr>\<rparr>,
      edit_initial\<lparr>edit_file := Some sample_file\<rparr>)
   = (empty_world\<lparr>store := empty_opfs\<lparr>has_storage := False\<rparr>\<rparr>,
      edit_initial\<lparr>edit_file := Some sample_file, edit_error := Some (SaveFailed TypeError)\<rparr>)"
  "snd (edit_handleMessage (PDF_SAVE_DATA (Some (BufferData [37, 80])) (Some ''out.pdf''))
     (empty_world, edit_initial\<lparr>edit_file := Some sample_file\<rparr>))
   = edit_initial\<lparr>edit_file := Some sample_file, edit_error := Some (SaveFailed TypeError)\<rparr>"
  "downloads (fst (edit_handleMessage (PDF_SAVE_DATA (Some (BufferData [37, 80])) (Some ''out.pdf''))
     (empty_world, edit_initial\<lparr>edit_file := Some sample_file\<rparr>))) = []"
  "entries (store (fst (edit_handleMessage (PDF_SAVE_DATA (Some (BufferData [37, 80])) (Some ''out.pdf''))
     (empty_world, edit_initial\<lparr>edit_file := Some sample_file\<rparr>)))) ''out.pdf'' = Some [37, 80]"
  by (simp_all add: edit_savedName_def empty_world_def empty_opfs_def opfs_defs valid_name_def
      EDIT_SESSION_FILE_NAME_def edit_initial_def)

section \<open>Properties of the signature store\<close>

lemmas idb_defs = saveSignature_def getAllSignatures_def deleteSignature_def openDB_def
  store_add_def store_getAll_def store_delete_def request_events_def resolve_def reject_def
  db_close_def

lemma saveSignature_resolved:
  assumes "saveSignature db t rnd t' sg = (Some (Inr i), db')"
  shows "i = ''sig_'' @ show_nat t @ ''_'' @ rnd"
    and "i \<notin> set (map ident (objects db))"
    and "objects db' = insort_key ident
           \<lparr>kind = kind sg, data = data sg, width = width sg, height = height sg,
            ident = i, createdAt = t'\<rparr> (objects db)"
    and "connections db' = connections db"
    and "condition db' = condition db"
    and "condition db \<noteq> RequestsFail"
  using assms
  by (auto simp: idb_defs Let_def split: idb_condition.splits if_splits)

lemma getAllSignatures_resolved:
  assumes "getAllSignatures db = (Some (Inr xs), db')"
  shows "xs = sort_key (\<lambda>s. - int (createdAt s)) (objects db)"
    and "db' = db"
  using assms
  by (auto simp: idb_defs Let_def split: idb_condition.splits if_splits)

lemma getAllSignatures_sorted:
  assumes "getAllSignatures db = (Some (Inr xs), db')"
  shows "sorted_wrt (\<lambda>a b. createdAt b \<le> createdAt a) xs"
    and "set xs = set (objects db)" and "length xs = length (objects db)"
proof -
  note r = getAllSignatures_resolved [OF assms]
  have "sorted (map (\<lambda>s. - int (createdAt s)) xs)"
    unfolding r(1) by (rule sorted_sort_key)
  then show "sorted_wrt (\<lambda>a b. createdAt b \<le> createdAt a) xs"
    by (simp add: sorted_map)
  show "set xs = set (objects db)" and "length xs = length (objects db)"
    unfolding r(1) by simp_all
qed

lemma success_closes:
  assumes "condition db = Healthy"
  shows "connections (snd (getAllSignatures db)) = connections db"
    and "connections (snd (deleteSignature db k)) = connections db"
    and "''sig_'' @ show_nat t @ ''_'' @ rnd \<notin> set (map ident (objects db))
         \<Longrightarrow> connections (snd (saveSignature db t rnd t' sg)) = connections db"
  using assms by (simp_all add: idb_defs Let_def)

lemma request_failure_leaks:
  assumes "condition db = RequestsFail"
  shows "connections (snd (saveSignature db t rnd t' sg)) = Suc (connections db)"
    and "connections (snd (getAllSignatures db)) = Suc (connections db)"
    and "connections (snd (deleteSignature db k)) = Suc (connections db)"
  using assms by (simp_all add: idb_defs Let_def)

lemma duplicate_key_leaks:
  assumes "condition db = Healthy"
    and "''sig_'' @ show_nat t @ ''_'' @ rnd \<in> set (map ident (objects db))"
  shows "saveSignature db t rnd t' sg =
           (Some (Inl (Error ''Failed to save signature'')),
            db\<lparr>connections := Suc (connections db)\<rparr>)"
  using assms by (simp add: idb_defs Let_def)

text \<open>
  C7 at the input where the code departs from it. On a backend whose requests fail,
  each of the three operations rejects and leaves the connection it opened open: the
  connection is closed in the transaction's \<open>complete\<close> handler only, and a failed
  request ends its transaction with \<open>abort\<close>.
\<close>

theorem failed_request_leaks_connection:
  "saveSignature (empty_idb\<lparr>condition := RequestsFail\<rparr>) 5 ''abcde'' 5 sample_signature
     = (Some (Inl (Error ''Failed to save signature'')),
        empty_idb\<lparr>condition := RequestsFail, connections := 1\<rparr>)
   \<and> getAllSignatures (empty_idb\<lparr>condition := RequestsFail\<rparr>)
     = (Some (Inl (Error ''Failed to load signatures'')),
        empty_idb\<lparr>condition := RequestsFail, connections := 1\<rparr>)
   \<and> deleteSignature (empty_idb\<lparr>condition := RequestsFail\<rparr>) ''sig_5_abcde''
     = (Some (Inl (Error ''Failed to delete signature'')),
        empty_idb\<lparr>condition := RequestsFail, connections := 1\<rparr>)"
  by (simp add: idb_defs empty_idb_def Let_def)

subsection \<open>Identifiers\<close>

lemma digit_char_inj: "a < 10 \<Longrightarrow> b < 10 \<Longrightarrow> digit_char a = digit_char b \<Longrightarrow> a = b"
  unfolding digit_char_def
  by (subst (asm) nth_eq_iff_index_eq) simp_all

lemma digit_char_digit: "d < 10 \<Longrightarrow> digit_char d \<in> set ''0123456789''"
  unfolding digit_char_def by (rule nth_mem) simp

lemma show_nat_nonempty: "show_nat n \<noteq> []"
  by (subst show_nat.simps) simp

lemma show_nat_digits: "set (show_nat n) \<subseteq> set ''0123456789''"
proof (induction n rule: show_nat.induct)
  case (1 n)
  show ?case
  proof (cases "n < 10")
    case True
    then show ?thesis
      using digit_char_digit [of n] by (subst show_nat.simps) simp
  next
    case False
    have "n mod 10 < 10" by simp
    from digit_char_digit [OF this] 1 [OF False] False show ?thesis
      by (subst show_nat.simps) simp
  qed
qed

lemma show_nat_inj: "show_nat n = show_nat m \<Longrightarrow> n = m"
proof (induction n arbitrary: m rule: show_nat.induct)
  case (1 n)
  show ?case
  proof (cases "n < 10")
    case True
    with "1.prems" have eq: "[digit_char n] = show_nat m"
      by (subst (asm) show_nat.simps) simp
    have "m < 10"
    proof (rule ccontr)
      assume "\<not> m < 10"
      then have "show_nat m = show_nat (m div 10) @ [digit_char (m mod 10)]"
        by (subst show_nat.simps) simp
      with eq show_nat_nonempty [of "m div 10"] show False
        by (cases "show_nat (m div 10)") simp_all
    qed
    with eq have "digit_char n = digit_char m"
      by (subst (asm) show_nat.simps) simp
    with True \<open>m < 10\<close> show ?thesis
      by (rule digit_char_inj)
  next
    case False
    then have n: "show_nat n = show_nat (n div 10) @ [digit_char (n mod 10)]"
      by (subst show_nat.simps) simp
    have "\<not> m < 10"
    proof
      assume "m < 10"
      then have "show_nat m = [digit_char m]"
        by (subst show_nat.simps) simp
      with n "1.prems" show_nat_nonempty [of "n div 10"] show False
        by (cases "show_nat (n div 10)") simp_all
    qed
    then have m: "show_nat m = show_nat (m div 10) @ [digit_char (m mod 10)]"
      by (subst show_nat.simps) simp
    from n m "1.prems" have q: "show_nat (n div 10) = show_nat (m div 10)"
      and r: "digit_char (n mod 10) = digit_char (m mod 10)"
      by simp_all
    from "1.IH" [OF False q] have "n div 10 = m div 10" .
    moreover from r have "n mod 10 = m mod 10"
      by (intro digit_char_inj) simp_all
    ultimately show ?thesis
      by (metis div_mult_mod_eq)
  qed
qed

lemma show_nat_prefix:
  "takeWhile (\<lambda>c. c \<noteq> CHR ''_'') (show_nat t @ ''_'' @ r) = show_nat t"
proof -
  have "\<And>c. c \<in> set (show_nat t) \<Longrightarrow> c \<noteq> CHR ''_''"
    using show_nat_digits [of t] by auto
  then show ?thesis
    by (simp add: takeWhile_append2)
qed

lemma signature_id_inj:
  assumes "''sig_'' @ show_nat t @ ''_'' @ r = ''sig_'' @ show_nat t' @ ''_'' @ r'"
  shows "t = t' \<and> r = r'"
proof -
  from assms have eq: "show_nat t @ ''_'' @ r = show_nat t' @ ''_'' @ r'"
    by simp
  then have "takeWhile (\<lambda>c. c \<noteq> CHR ''_'') (show_nat t @ ''_'' @ r)
      = takeWhile (\<lambda>c. c \<noteq> CHR ''_'') (show_nat t' @ ''_'' @ r')"
    by simp
  then have s: "show_nat t = show_nat t'"
    by (simp only: show_nat_prefix)
  with eq show ?thesis
    by (simp add: show_nat_inj)
qed

text \<open>
  C8, as the code has it. The id \<open>saveSignature\<close> returns is built by the store from the
  clock and a random suffix, the caller's record carrying none, and the record is stored
  under it. It is the id of no record the store holds at that moment (on such an id
  \<open>add\<close> fails and the save is rejected), and it differs from the id built from any
  other pair of clock reading and random suffix.
\<close>

theorem saved_id_fresh:
  assumes "saveSignature db t rnd t' sg = (Some (Inr i), db')"
  shows "i = ''sig_'' @ show_nat t @ ''_'' @ rnd
       \<and> i \<notin> set (map ident (objects db))
       \<and> \<lparr>kind = kind sg, data = data sg, width = width sg, height = height sg,
           ident = i, createdAt = t'\<rparr> \<in> set (objects db')
       \<and> (\<forall>t0 rnd0. (t0, rnd0) \<noteq> (t, rnd) \<longrightarrow> ''sig_'' @ show_nat t0 @ ''_'' @ rnd0 \<noteq> i)"
proof -
  note r = saveSignature_resolved [OF assms]
  have "\<forall>t0 rnd0. (t0, rnd0) \<noteq> (t, rnd) \<longrightarrow> ''sig_'' @ show_nat t0 @ ''_'' @ rnd0 \<noteq> i"
    unfolding r(1) using signature_id_inj by blast
  with r(1) r(2) r(3) show ?thesis
    by (simp add: set_insort_key)
qed

theorem saved_id_fresh_witness:
  "saveSignature empty_idb 5 ''abcde'' 7 sample_signature
     = (Some (Inr ''sig_5_abcde''),
        empty_idb\<lparr>objects := [\<lparr>kind = Svg, data = ''<svg/>'', width = Some 120, height = Some 40,
                                ident = ''sig_5_abcde'', createdAt = 7\<rparr>]\<rparr>)
   \<and> ''sig_'' @ show_nat 6 @ ''_'' @ ''abcde'' \<noteq> ''sig_5_abcde''"
proof -
  have h: "saveSignature empty_idb 5 ''abcde'' 7 sample_signature
     = (Some (Inr ''sig_5_abcde''),
        empty_idb\<lparr>objects := [\<lparr>kind = Svg, data = ''<svg/>'', width = Some 120, height = Some 40,
                                ident = ''sig_5_abcde'', createdAt = 7\<rparr>]\<rparr>)"
    by (simp add: idb_defs empty_idb_def sample_signature_def Let_def show_nat.simps digit_char_def)
  from saved_id_fresh [OF h]
  have "\<forall>t0 rnd0. (t0, rnd0) \<noteq> (5, ''abcde'')
      \<longrightarrow> ''sig_'' @ show_nat t0 @ ''_'' @ rnd0 \<noteq> ''sig_5_abcde''"
    by blast
  then have "(6, ''abcde'') \<noteq> (5 :: nat, ''abcde'')
      \<longrightarrow> ''sig_'' @ show_nat 6 @ ''_'' @ ''abcde'' \<noteq> ''sig_5_abcde''"
    by blast
  then have "''sig_'' @ show_nat 6 @ ''_'' @ ''abcde'' \<noteq> ''sig_5_abcde''"
    by simp
  with h show ?thesis
    by blast
qed

text \<open>
  The claim as stated fails: after the record is deleted, a save that reads the same
  clock value and draws the same suffix returns the id that was returned before.
\<close>

theorem saved_id_repeats_counterexample:
  "fst (saveSignature empty_idb 5 ''abcde'' 5 sample_signature) = Some (Inr ''sig_5_abcde'')
   \<and> fst (saveSignature
        (snd (deleteSignature (snd (saveSignature empty_idb 5 ''abcde'' 5 sample_signature))
               ''sig_5_abcde''))
        5 ''abcde'' 6 sample_signature) = Some (Inr ''sig_5_abcde'')"
  by (simp add: idb_defs empty_idb_def Let_def show_nat.simps digit_char_def)

subsection \<open>Order of the records returned\<close>

lemma getAll_two_saves:
  assumes "saveSignature db t1 r1 c1 sg1 = (Some (Inr i1), db1)"
    and "saveSignature db1 t2 r2 c2 sg2 = (Some (Inr i2), db2)"
    and "getAllSignatures db2 = (Some (Inr xs), db3)"
    and "c1 < c2"
  shows "sorted_wrt (\<lambda>a b. createdAt b \<le> createdAt a) xs
       \<and> db3 = db2
       \<and> (\<exists>i j. i < j \<and> j < length xs
            \<and> xs ! i = \<lparr>kind = kind sg2, data = data sg2, width = width sg2, height = height sg2,
                         ident = i2, createdAt = c2\<rparr>
            \<and> xs ! j = \<lparr>kind = kind sg1, data = data sg1, width = width sg1, height = height sg1,
                         ident = i1, createdAt = c1\<rparr>)"
proof -
  let ?e1 = "\<lparr>kind = kind sg1, data = data sg1, width = width sg1, height = height sg1,
              ident = i1, createdAt = c1\<rparr>"
  let ?e2 = "\<lparr>kind = kind sg2, data = data sg2, width = width sg2, height = height sg2,
              ident = i2, createdAt = c2\<rparr>"
  note s1 = saveSignature_resolved [OF assms(1)]
  note s2 = saveSignature_resolved [OF assms(2)]
  note g = getAllSignatures_sorted [OF assms(3)]
  have "?e1 \<in> set (objects db2)" and "?e2 \<in> set (objects db2)"
    by (simp_all add: s1(3) s2(3) set_insort_key)
  then have "?e1 \<in> set xs" and "?e2 \<in> set xs"
    by (simp_all add: g(2))
  then obtain i j where i: "i < length xs" "xs ! i = ?e2" and j: "j < length xs" "xs ! j = ?e1"
    by (auto simp: in_set_conv_nth)
  have "i < j"
  proof (rule ccontr)
    assume "\<not> i < j"
    then consider "i = j" | "j < i" by linarith
    then show False
    proof cases
      case 1
      with i(2) j(2) have "?e2 = ?e1" by simp
      with assms(4) show False by simp
    next
      case 2
      with g(1) i(1) have "createdAt (xs ! i) \<le> createdAt (xs ! j)"
        by (simp add: sorted_wrt_iff_nth_less)
      with i(2) j(2) assms(4) show False by simp
    qed
  qed
  with i j g(1) getAllSignatures_resolved(2) [OF assms(3)] show ?thesis
    by blast
qed

lemma getAllSignatures_ties:
  assumes "getAllSignatures db = (Some (Inr xs), db')"
  shows "filter (\<lambda>s. createdAt s = c) xs = filter (\<lambda>s. createdAt s = c) (objects db)"
proof -
  have "filter (\<lambda>s. - int (createdAt s) = - int c) (sort_key (\<lambda>s. - int (createdAt s)) (objects db))
      = filter (\<lambda>s. - int (createdAt s) = - int c) (objects db)"
    by (rule sort_key_stable)
  then show ?thesis
    by (simp add: getAllSignatures_resolved(1) [OF assms])
qed

text \<open>
  C9, as the code has it. \<open>getAllSignatures\<close> returns the records sorted by creation
  time, newest first, and leaves the database as it was. Records with the same creation
  time come back in the order the store holds them, which is the order of their ids.
  After saving \<open>r1\<close> and then \<open>r2\<close> it returns \<open>r2\<close> before \<open>r1\<close> when the creation time of
  \<open>r2\<close> is later than that of \<open>r1\<close>.
\<close>

theorem getAll_newest_first:
  assumes "getAllSignatures db2 = (Some (Inr xs), db3)"
  shows "sorted_wrt (\<lambda>a b. createdAt b \<le> createdAt a) xs
       \<and> db3 = db2
       \<and> (\<forall>c. filter (\<lambda>s. createdAt s = c) xs = filter (\<lambda>s. createdAt s = c) (objects db2))
       \<and> (sorted (map ident (objects db2))
            \<longrightarrow> (\<forall>c. sorted (map ident (filter (\<lambda>s. createdAt s = c) xs))))
       \<and> (\<forall>db t1 r1 c1 sg1 i1 db1 t2 r2 c2 sg2 i2.
            saveSignature db t1 r1 c1 sg1 = (Some (Inr i1), db1)
            \<and> saveSignature db1 t2 r2 c2 sg2 = (Some (Inr i2), db2)
            \<longrightarrow> (sorted (map ident (objects db)) \<longrightarrow> sorted (map ident (objects db2)))
              \<and> (c1 < c2 \<longrightarrow>
                   (\<exists>i j. i < j \<and> j < length xs
                      \<and> xs ! i = \<lparr>kind = kind sg2, data = data sg2, width = width sg2,
                                   height = height sg2, ident = i2, createdAt = c2\<rparr>
                      \<and> xs ! j = \<lparr>kind = kind sg1, data = data sg1, width = width sg1,
                                   height = height sg1, ident = i1, createdAt = c1\<rparr>)))"
proof (intro conjI allI impI)
  show "sorted_wrt (\<lambda>a b. createdAt b \<le> createdAt a) xs"
    by (rule getAllSignatures_sorted(1) [OF assms])
  show "db3 = db2"
    by (rule getAllSignatures_resolved(2) [OF assms])
  show "filter (\<lambda>s. createdAt s = c) xs = filter (\<lambda>s. createdAt s = c) (objects db2)" for c
    by (rule getAllSignatures_ties [OF assms])
  show "sorted (map ident (filter (\<lambda>s. createdAt s = c) xs))"
    if "sorted (map ident (objects db2))" for c
    using that by (simp add: getAllSignatures_ties [OF assms] sorted_filter)
next
  fix db t1 r1 c1 sg1 i1 db1 t2 r2 c2 sg2 i2
  assume s: "saveSignature db t1 r1 c1 sg1 = (Some (Inr i1), db1)
      \<and> saveSignature db1 t2 r2 c2 sg2 = (Some (Inr i2), db2)"
  note s1 = saveSignature_resolved [OF conjunct1 [OF s]]
  note s2 = saveSignature_resolved [OF conjunct2 [OF s]]
  show "sorted (map ident (objects db2))" if "sorted (map ident (objects db))"
    using that by (simp add: s1(3) s2(3) sorted_insort_key)
  show "\<exists>i j. i < j \<and> j < length xs
      \<and> xs ! i = \<lparr>kind = kind sg2, data = data sg2, width = width sg2,
                   height = height sg2, ident = i2, createdAt = c2\<rparr>
      \<and> xs ! j = \<lparr>kind = kind sg1, data = data sg1, width = width sg1,
                   height = height sg1, ident = i1, createdAt = c1\<rparr>"
    if "c1 < c2"
    using getAll_two_saves [OF conjunct1 [OF s] conjunct2 [OF s] assms that] by blast
qed

theorem getAll_newest_first_witness:
  "saveSignature empty_idb 5 ''bbbbb'' 5 sample_signature
     = (Some (Inr ''sig_5_bbbbb''),
        empty_idb\<lparr>objects := [\<lparr>kind = Svg, data = ''<svg/>'', width = Some 120, height = Some 40,
                                ident = ''sig_5_bbbbb'', createdAt = 5\<rparr>]\<rparr>)
   \<and> getAllSignatures
       (snd (saveSignature (snd (saveSignature empty_idb 5 ''bbbbb'' 5 sample_signature))
               6 ''aaaaa'' 6 (sample_signature\<lparr>kind := Image\<rparr>)))
     = (Some (Inr [\<lparr>kind = Image, data = ''<svg/>'', width = Some 120, height = Some 40,
                    ident = ''sig_6_aaaaa'', createdAt = 6\<rparr>,
                  \<lparr>kind = Svg, data = ''<svg/>'', width = Some 120, height = Some 40,
                    ident = ''sig_5_bbbbb'', createdAt = 5\<rparr>]),
        snd (saveSignature (snd (saveSignature empty_idb 5 ''bbbbb'' 5 sample_signature))
               6 ''aaaaa'' 6 (sample_signature\<lparr>kind := Image\<rparr>)))
   \<and> (\<exists>i j. i < j \<and> j < (2 :: nat)
        \<and> [\<lparr>kind = Image, data = ''<svg/>'', width = Some 120, height = Some 40,
              ident = ''sig_6_aaaaa'', createdAt = 6\<rparr>,
            \<lparr>kind = Svg, data = ''<svg/>'', width = Some 120, height = Some 40,
              ident = ''sig_5_bbbbb'', createdAt = 5\<rparr>] ! i
          = \<lparr>kind = Image, data = ''<svg/>'', width = Some 120, height = Some 40,
              ident = ''sig_6_aaaaa'', createdAt = 6\<rparr>
        \<and> [\<lparr>kind = Image, data = ''<svg/>'', width = Some 120, height = Some 40,
              ident = ''sig_6_aaaaa'', createdAt = 6\<rparr>,
            \<lparr>kind = Svg, data = ''<svg/>'', width = Some 120, height = Some 40,
              ident = ''sig_5_bbbbb'', createdAt = 5\<rparr>] ! j
          = \<lparr>kind = Svg, data = ''<svg/>'', width = Some 120, height = Some 40,
              ident = ''sig_5_bbbbb'', createdAt = 5\<rparr>)"
proof -
  let ?e1 = "\<lparr>kind = Svg, data = ''<svg/>'', width = Some 120, height = Some 40,
              ident = ''sig_5_bbbbb'', createdAt = 5\<rparr>"
  let ?e2 = "\<lparr>kind = Image, data = ''<svg/>'', width = Some 120, height = Some 40,
              ident = ''sig_6_aaaaa'', createdAt = 6\<rparr>"
  let ?db2 = "snd (saveSignature (snd (saveSignature empty_idb 5 ''bbbbb'' 5 sample_signature))
               6 ''aaaaa'' 6 (sample_signature\<lparr>kind := Image\<rparr>))"
  have h1: "saveSignature empty_idb 5 ''bbbbb'' 5 sample_signature
     = (Some (Inr ''sig_5_bbbbb''), empty_idb\<lparr>objects := [?e1]\<rparr>)"
    by (simp add: idb_defs empty_idb_def sample_signature_def Let_def show_nat.simps digit_char_def)
  have h2: "saveSignature (empty_idb\<lparr>objects := [?e1]\<rparr>) 6 ''aaaaa'' 6
       (sample_signature\<lparr>kind := Image\<rparr>)
     = (Some (Inr ''sig_6_aaaaa''), empty_idb\<lparr>objects := [?e1, ?e2]\<rparr>)"
    by (simp add: idb_defs empty_idb_def sample_signature_def Let_def show_nat.simps digit_char_def)
  have h3: "getAllSignatures (empty_idb\<lparr>objects := [?e1, ?e2]\<rparr>)
     = (Some (Inr [?e2, ?e1]), empty_idb\<lparr>objects := [?e1, ?e2]\<rparr>)"
    by (simp add: idb_defs empty_idb_def Let_def)
  have h4: "(5 :: nat) < 6"
    by simp
  have db2: "?db2 = empty_idb\<lparr>objects := [?e1, ?e2]\<rparr>"
    by (simp add: h1 h2)
  note general = getAll_newest_first [OF h3]
  note two_saves = general [THEN conjunct2, THEN conjunct2, THEN conjunct2, THEN conjunct2,
      rule_format, OF conjI [OF h1 h2]]
  from two_saves [THEN conjunct2, rule_format, OF h4]
  have "\<exists>i j. i < j \<and> j < Suc (Suc 0) \<and> [?e2, ?e1] ! i = ?e2 \<and> [?e2, ?e1] ! j = ?e1"
    by (simp add: sample_signature_def)
  with h1 h3 db2 show ?thesis
    by (simp add: numeral_2_eq_2)
qed

text \<open>
  The claim as stated fails: two records saved within the same millisecond come back
  in the order of their ids, here the first one saved first.
\<close>

theorem getAll_tie_counterexample:
  "fst (getAllSignatures (snd (saveSignature (snd (saveSignature empty_idb 5 ''aaaaa'' 5 sample_signature))
         5 ''bbbbb'' 5 (sample_signature\<lparr>kind := Image\<rparr>))))
   = Some (Inr [\<lparr>kind = Svg, data = ''<svg/>'', width = Some 120, height = Some 40,
                  ident = ''sig_5_aaaaa'', createdAt = 5\<rparr>,
                \<lparr>kind = Image, data = ''<svg/>'', width = Some 120, height = Some 40,
                  ident = ''sig_5_bbbbb'', createdAt = 5\<rparr>])"
  by (simp add: idb_defs empty_idb_def sample_signature_def Let_def show_nat.simps digit_char_def)

end
